theory Spec2Isabelle
  imports
    Main
    "HOL-Library.Char_ord"
    "HOL-Library.List_Lexorder"
    "HOL-Library.AList"
begin

section \<open>The beers store of the frontend demo (\<^verbatim>\<open>src/state/beersState.ts\<close>)\<close>

text \<open>
  The class \<^verbatim>\<open>BeersState\<close> is a MobX store: observable fields, actions that
  mutate them, and asynchronous actions that suspend at \<^verbatim>\<open>await fetch(...)\<close>.
  The embedding is by explicit state passing. An action takes the store and returns
  the new store; an action that can throw returns the store together with
  \<open>Inl\<close> of the error or \<open>Inr\<close> of its value, since a JavaScript exception keeps
  every mutation made before it. An asynchronous action is cut at its
  \<^verbatim>\<open>await fetch\<close>: the part before it and the part after it are functions of
  their own, and the run of one call to completion composes them with what the
  network answers.
\<close>

subsection \<open>JavaScript values: errors, numbers as text\<close>

datatype JSError = Error (message: string)

text \<open>
  A thrown value reaches the store only through \<^verbatim>\<open>e.message\<close>. A result is the
  store after the call and either the error thrown (the promise rejected) or the
  value returned.
\<close>

type_synonym ('s, 'v) result = "'s \<times> (JSError + 'v)"

definition try_catch ::
    "('s, 'v) result \<Rightarrow> ('s \<Rightarrow> JSError \<Rightarrow> ('s, 'v) result) \<Rightarrow> ('s, 'v) result" where
  "try_catch body handler =
     (case body of (s, Inl e) \<Rightarrow> handler s e | (s, Inr v) \<Rightarrow> (s, Inr v))"

text \<open>
  The ids of the store are integers; \<^verbatim>\<open>"/" + id\<close> and \<^verbatim>\<open>`${id}`\<close> print them
  in decimal (JavaScript does so for every integer below \<open>10^21\<close>).
\<close>

fun showNat :: "nat \<Rightarrow> string" where
  "showNat n =
     (if n < 10 then [''0123456789'' ! n]
      else showNat (n div 10) @ [''0123456789'' ! (n mod 10)])"

definition showInt :: "int \<Rightarrow> string" where
  "showInt i = (if i < 0 then CHR ''-'' # showNat (nat (- i)) else showNat (nat i))"

text \<open>
  \<^verbatim>\<open>parseInt\<close> with no radix, which \<^verbatim>\<open>_.parseInt\<close> and \<^verbatim>\<open>Number.parseInt\<close> both
  are: leading white space is skipped, then a sign, then \<^verbatim>\<open>0x\<close> selects radix 16,
  then the longest run of digits is read; no digit at all gives \<^verbatim>\<open>NaN\<close>, which is
  \<open>None\<close> here. The result is the integer read (rounding of literals beyond
  \<open>2^53\<close> is not modelled, and the white space is that of ASCII).
\<close>

definition isStrWhiteSpaceChar :: "char \<Rightarrow> bool" where
  "isStrWhiteSpaceChar c \<longleftrightarrow>
     c = CHR 0x09 \<or> c = CHR 0x0A \<or> c = CHR 0x0B \<or> c = CHR 0x0C \<or> c = CHR 0x0D \<or> c = CHR '' ''"

definition digitValue :: "char \<Rightarrow> nat option" where
  "digitValue c =
     (let n = (of_char c :: nat)
      in if 48 \<le> n \<and> n \<le> 57 then Some (n - 48)
         else if 97 \<le> n \<and> n \<le> 122 then Some (n - 87)
         else if 65 \<le> n \<and> n \<le> 90 then Some (n - 55)
         else None)"

fun mathInt :: "nat \<Rightarrow> string \<Rightarrow> nat option \<Rightarrow> nat option" where
  "mathInt R [] acc = acc"
| "mathInt R (c # cs) acc =
     (case digitValue c of
        None \<Rightarrow> acc
      | Some d \<Rightarrow>
          if d < R then mathInt R cs (Some (R * (case acc of None \<Rightarrow> 0 | Some a \<Rightarrow> a) + d))
          else acc)"

definition parseInt :: "string \<Rightarrow> int option" where
  "parseInt str =
     (let s1 = dropWhile isStrWhiteSpaceChar str;
          negative = (case s1 of [] \<Rightarrow> False | c # cs \<Rightarrow> c = CHR ''-'');
          s2 = (case s1 of [] \<Rightarrow> s1 | c # cs \<Rightarrow> if c = CHR ''-'' \<or> c = CHR ''+'' then cs else s1);
          hex = (case s2 of a # b # cs \<Rightarrow> a = CHR ''0'' \<and> (b = CHR ''x'' \<or> b = CHR ''X'') | _ \<Rightarrow> False);
          s3 = (if hex then drop 2 s2 else s2)
      in case mathInt (if hex then 16 else 10) s3 None of
           None \<Rightarrow> None
         | Some n \<Rightarrow> Some (if negative then - int n else int n))"

subsection \<open>The lodash functions the store calls\<close>

text \<open>
  \<^verbatim>\<open>_.find(xs, { id })\<close> is the first element whose \<^verbatim>\<open>id\<close> is the given one,
  \<^verbatim>\<open>_.remove(xs, p)\<close> leaves the elements that fail \<^verbatim>\<open>p\<close>, and
  \<^verbatim>\<open>_.unionWith(xs, ys, comparator)\<close> walks \<^verbatim>\<open>xs\<close> followed by \<^verbatim>\<open>ys\<close> and keeps
  a value when the comparator matches it with none of the values kept so far
  (lodash's \<^verbatim>\<open>baseUniq\<close> and \<^verbatim>\<open>arrayIncludesWith\<close>). \<^verbatim>\<open>_.sortBy\<close> is a stable
  ascending sort on the key; strings compare by code unit, as the lexicographic
  order on \<open>string\<close> does.
\<close>

fun arrayIncludesWith :: "'b list \<Rightarrow> 'b \<Rightarrow> ('b \<Rightarrow> 'b \<Rightarrow> bool) \<Rightarrow> bool" where
  "arrayIncludesWith [] v comparator = False"
| "arrayIncludesWith (x # xs) v comparator =
     (if comparator v x then True else arrayIncludesWith xs v comparator)"

fun baseUniq :: "('b \<Rightarrow> 'b \<Rightarrow> bool) \<Rightarrow> 'b list \<Rightarrow> 'b list \<Rightarrow> 'b list" where
  "baseUniq comparator result [] = result"
| "baseUniq comparator result (v # vs) =
     (if \<not> arrayIncludesWith result v comparator
      then baseUniq comparator (result @ [v]) vs
      else baseUniq comparator result vs)"

definition unionWith :: "'b list \<Rightarrow> 'b list \<Rightarrow> ('b \<Rightarrow> 'b \<Rightarrow> bool) \<Rightarrow> 'b list" where
  "unionWith xs ys comparator = baseUniq comparator [] (xs @ ys)"

definition sortBy :: "'b list \<Rightarrow> ('b \<Rightarrow> 'k::linorder) \<Rightarrow> 'b list" where
  "sortBy xs key = sort_key key xs"

definition remove :: "'b list \<Rightarrow> ('b \<Rightarrow> bool) \<Rightarrow> 'b list" where
  "remove xs predicate = filter (\<lambda>item. \<not> predicate item) xs"

subsection \<open>The data of the store\<close>

text \<open>
  Modelled from the spec: the interface \<^verbatim>\<open>IBeer\<close> (\<^verbatim>\<open>src/state/IBeer.ts\<close> is not
  among the sources). The store reads \<^verbatim>\<open>id\<close> and \<^verbatim>\<open>name\<close> only; the spec gives an
  entity a numeric id, a display name and opaque domain attributes, which are the
  field \<open>attrs\<close>.
\<close>

record 'a IBeer =
  beer_id :: int
  name :: string
  attrs :: 'a

record IBeersInfo =
  globalLikes :: "(string \<times> int) list"
  globalComments :: "(string \<times> (string \<times> string) list) list"

text \<open>
  An \<^verbatim>\<open>ObservableMap\<close> keeps its entries in insertion order: an association list,
  with \<^verbatim>\<open>get\<close>, \<^verbatim>\<open>set\<close>, \<^verbatim>\<open>delete\<close> and \<^verbatim>\<open>clear\<close>.
\<close>

type_synonym 'v ObservableMap = "(string \<times> 'v) list"

definition map_get :: "'v ObservableMap \<Rightarrow> string \<Rightarrow> 'v option" where
  "map_get m k = map_of m k"

definition map_set :: "'v ObservableMap \<Rightarrow> string \<Rightarrow> 'v \<Rightarrow> 'v ObservableMap" where
  "map_set m k v = AList.update k v m"

definition map_delete :: "'v ObservableMap \<Rightarrow> string \<Rightarrow> 'v ObservableMap" where
  "map_delete m k = AList.delete k m"

text \<open>
  The fields of \<^verbatim>\<open>BeersState\<close>. \<open>remainingRequests\<close> is a JavaScript number that
  \<^verbatim>\<open>Number.parseInt\<close> produces: an integer, or \<^verbatim>\<open>NaN\<close> (\<open>None\<close>). In \<open>uriMap\<close> a URI
  is mapped to \<open>True\<close> from the moment its request is sent and to \<open>False\<close> once the
  request has succeeded; the entry is deleted when the request fails.
\<close>

record 'a BeersState =
  beers :: "'a IBeer list"
  remainingRequests :: "int option"
  selectedBeer :: "'a IBeer option"
  errorText :: "string option"
  isRehydrated :: bool
  likedBeerIds :: "int list"
  commentsMap :: "string ObservableMap"
  isUploading :: bool
  beersInfo :: "IBeersInfo option"
  uriMap :: "bool ObservableMap"

definition initial :: "'a BeersState" where
  "initial =
     \<lparr> beers = [], remainingRequests = Some 0, selectedBeer = None, errorText = None,
       isRehydrated = False, likedBeerIds = [], commentsMap = [], isUploading = False,
       beersInfo = None, uriMap = [] \<rparr>"

text \<open>
  Modelled from the spec: the auth collaborator \<^verbatim>\<open>authState\<close>
  (\<^verbatim>\<open>src/state/authState.ts\<close> is not among the sources), which exposes
  \<^verbatim>\<open>isAuthenticated\<close> and, when that is true, an access token.
\<close>

record AuthState =
  isAuthenticated :: bool
  accessToken :: string

text \<open>
  What \<^verbatim>\<open>fetch\<close> settles to: it rejects with an error, or resolves to a response
  with a status, the header \<^verbatim>\<open>x-ratelimit-remaining\<close> (\<open>None\<close> when absent) and a
  body that \<^verbatim>\<open>res.json()\<close> parses or rejects.
\<close>

record 'a Response =
  status :: int
  x_ratelimit_remaining :: "string option"
  json :: "JSError + 'a IBeer list"

type_synonym 'a settled = "JSError + 'a Response"

text \<open>
  The surroundings of one call that runs to completion: \<open>net uri\<close> is what the
  request for \<open>uri\<close> settles to, and \<open>during\<close> is what the other tasks (the
  continuation of \<^verbatim>\<open>refreshBeersInfo\<close>, say) do to the store while the call is
  suspended at its \<^verbatim>\<open>await fetch(uri)\<close>.
\<close>

record 'a env =
  net :: "string \<Rightarrow> 'a settled"
  during :: "'a BeersState \<Rightarrow> 'a BeersState"

datatype idFromUrl = Str string | Num int

fun toString :: "idFromUrl \<Rightarrow> string" where
  "toString (Str s) = s"
| "toString (Num n) = showInt n"

subsection \<open>Computed values\<close>

definition findById :: "'a IBeer list \<Rightarrow> int \<Rightarrow> 'a IBeer option" where
  "findById bs i = List.find (\<lambda>beer. beer_id beer = i) bs"



definition likedBeers :: "'a BeersState \<Rightarrow> 'a IBeer list" where
  "likedBeers s = filter (\<lambda>beer. beer_id beer \<in> set (likedBeerIds s)) (beers s)"

definition isLikedBeer :: "'a BeersState \<Rightarrow> int \<Rightarrow> bool" where
  "isLikedBeer s i = (case findById (likedBeers s) i of Some beer \<Rightarrow> True | None \<Rightarrow> False)"

subsection \<open>The merge of fetched beers into the catalog\<close>

definition sameId :: "'a IBeer \<Rightarrow> 'a IBeer \<Rightarrow> bool" where
  "sameId a b \<longleftrightarrow> beer_id a = beer_id b"

definition unionAndSortBeers :: "'a BeersState \<Rightarrow> 'a IBeer list \<Rightarrow> 'a IBeer list" where
  "unionAndSortBeers s newBeers =
     (let unioned = unionWith (beers s) newBeers sameId
      in sortBy unioned name)"

subsection \<open>Synchronous actions\<close>

definition dismissError :: "'a BeersState \<Rightarrow> 'a BeersState" where
  "dismissError s = s\<lparr>errorText := None\<rparr>"

definition deselectBeer :: "'a BeersState \<Rightarrow> 'a BeersState" where
  "deselectBeer s = s\<lparr>selectedBeer := None\<rparr>"


text \<open>
  \<^verbatim>\<open>uploadStateToUserProfile\<close> up to its \<^verbatim>\<open>await fetch\<close>: nothing happens when
  the user is not authenticated, otherwise the uploading flag is raised and the
  \<^verbatim>\<open>PATCH\<close> request is sent. \<^verbatim>\<open>toggleLikeBeer\<close> and \<^verbatim>\<open>setComment\<close> call it without
  awaiting it, so this part is all of it that runs inside them.
\<close>

definition uploadStateToUserProfile_begin :: "AuthState \<Rightarrow> 'a BeersState \<Rightarrow> 'a BeersState" where
  "uploadStateToUserProfile_begin auth s =
     (if isAuthenticated auth = False then s else s\<lparr>isUploading := True\<rparr>)"

definition setComment ::
    "AuthState \<Rightarrow> 'a BeersState \<Rightarrow> int \<Rightarrow> string option \<Rightarrow> ('a BeersState, unit) result" where
  "setComment auth s i comment =
     (if findById (beers s) i = None
      then (s, Inl (Error ''You are not allowed to setComment on beers not within our cache!''))
      else
        let s1 = (case comment of
                    Some text \<Rightarrow>
                      if text \<noteq> []
                      then s\<lparr>commentsMap := map_set (commentsMap s) (showInt i) text\<rparr>
                      else s\<lparr>commentsMap := map_delete (commentsMap s) (showInt i)\<rparr>
                  | None \<Rightarrow> s\<lparr>commentsMap := map_delete (commentsMap s) (showInt i)\<rparr>)
        in (uploadStateToUserProfile_begin auth s1, Inr ()))"

definition toggleLikeBeer :: "AuthState \<Rightarrow> 'a BeersState \<Rightarrow> int \<Rightarrow> 'a BeersState" where
  "toggleLikeBeer auth s i =
     (let s1 = (if isLikedBeer s i = False
                then s\<lparr>likedBeerIds := likedBeerIds s @ [i]\<rparr>
                else s\<lparr>likedBeerIds := remove (likedBeerIds s) (\<lambda>item. item = i)\<rparr>)
      in uploadStateToUserProfile_begin auth s1)"

subsection \<open>The fetch path\<close>

text \<open>
  \<^verbatim>\<open>getBeersApi\<close> up to its \<^verbatim>\<open>await fetch(uri)\<close>: either it returns at once, or it
  is suspended on the request for a URI.
\<close>

datatype 'a suspended = Return "'a IBeer list" | Await string

definition beersUri :: "int option \<Rightarrow> string" where
  "beersUri idOpt =
     ''https://api.punkapi.com/v2/beers'' @
       (case idOpt of
          None \<Rightarrow> ''''
        | Some i \<Rightarrow> if i \<noteq> 0 then ''/'' @ showInt i else '''')"

definition getBeersApi_begin ::
    "'a BeersState \<Rightarrow> int option \<Rightarrow> 'a BeersState \<times> 'a suspended" where
  "getBeersApi_begin s idOpt =
     (let s1 = dismissError s;
          uri = beersUri idOpt
      in if map_get (uriMap s1) uri = Some False
         then (s1, Return (beers s1))
         else (s1\<lparr>uriMap := map_set (uriMap s1) uri True\<rparr>, Await uri))"

text \<open>
  The rest of \<^verbatim>\<open>getBeersApi\<close>, from the moment the request has settled: the three
  throws of the \<^verbatim>\<open>try\<close> block (the rejected request, the status that is not 200,
  the body that does not parse) and its \<^verbatim>\<open>catch\<close>.
\<close>

definition getBeersApi_resume ::
    "'a BeersState \<Rightarrow> string \<Rightarrow> 'a settled \<Rightarrow> ('a BeersState, 'a IBeer list) result" where
  "getBeersApi_resume s uri settled =
     try_catch
       (case settled of
          Inl e \<Rightarrow> (s, Inl e)
        | Inr res \<Rightarrow>
            if status res \<noteq> 200
            then (s, Inl (Error (''API returned unexpected response code: '' @ showInt (status res))))
            else (case json res of
                    Inl e \<Rightarrow> (s, Inl e)
                  | Inr bs \<Rightarrow>
                      (s\<lparr>remainingRequests :=
                           parseInt (case x_ratelimit_remaining res of None \<Rightarrow> ''null'' | Some h \<Rightarrow> h),
                         uriMap := map_set (uriMap s) uri False\<rparr>,
                       Inr bs)))
       (\<lambda>s' e. (s'\<lparr>uriMap := map_delete (uriMap s') uri, errorText := Some (message e)\<rparr>, Inr []))"

definition getBeersApi ::
    "'a env \<Rightarrow> 'a BeersState \<Rightarrow> int option \<Rightarrow> ('a BeersState, 'a IBeer list) result" where
  "getBeersApi env s idOpt =
     (case getBeersApi_begin s idOpt of
        (s1, Return bs) \<Rightarrow> (s1, Inr bs)
      | (s1, Await uri) \<Rightarrow> getBeersApi_resume (during env s1) uri (net env uri))"

subsection \<open>Asynchronous actions\<close>

definition loadBeers :: "'a env \<Rightarrow> 'a BeersState \<Rightarrow> ('a BeersState, unit) result" where
  "loadBeers env s =
     (case getBeersApi env s None of
        (s1, Inl e) \<Rightarrow> (s1, Inl e)
      | (s1, Inr bs) \<Rightarrow> (s1\<lparr>beers := unionAndSortBeers s1 bs\<rparr>, Inr ()))"

definition loadBeer :: "'a env \<Rightarrow> 'a BeersState \<Rightarrow> int \<Rightarrow> ('a BeersState, 'a IBeer) result" where
  "loadBeer env s i =
     (case findById (beers s) i of
        Some beer \<Rightarrow> (s, Inr beer)
      | None \<Rightarrow>
          (case getBeersApi env s (Some i) of
             (s1, Inl e) \<Rightarrow> (s1, Inl e)
           | (s1, Inr []) \<Rightarrow> (s1, Inl (Error ''Beer not found or currently unavailable!''))
           | (s1, Inr (beer # rest)) \<Rightarrow> (s1\<lparr>beers := unionAndSortBeers s1 [beer]\<rparr>, Inr beer)))"

text \<open>
  \<^verbatim>\<open>refreshBeersInfo\<close> changes nothing before its \<^verbatim>\<open>await fetch\<close>; this is the
  part after it, given the parsed answer or the error.
\<close>

definition refreshBeersInfo_resume :: "'a BeersState \<Rightarrow> JSError + IBeersInfo \<Rightarrow> 'a BeersState" where
  "refreshBeersInfo_resume s settled =
     (case settled of
        Inr info \<Rightarrow> s\<lparr>beersInfo := Some info\<rparr>
      | Inl e \<Rightarrow> s\<lparr>errorText := Some (''refreshBeersInfo error: '' @ message e)\<rparr>)"

text \<open>
  \<^verbatim>\<open>selectBeer\<close> first calls \<^verbatim>\<open>refreshBeersInfo\<close> without awaiting it (the request
  is sent, the store is untouched; its continuation is one of the tasks of
  \<open>during\<close>), then clears the error and runs its \<^verbatim>\<open>try\<close> block.
\<close>

definition selectBeer :: "'a env \<Rightarrow> 'a BeersState \<Rightarrow> idFromUrl \<Rightarrow> ('a BeersState, unit) result" where
  "selectBeer env s idFromUrl =
     (let s0 = dismissError s
      in try_catch
           (case parseInt (toString idFromUrl) of
              None \<Rightarrow> (s0, Inl (Error ''Beers can only have numeric ids!''))
            | Some i \<Rightarrow>
                (case loadBeer env s0 i of
                   (s1, Inl e) \<Rightarrow> (s1, Inl e)
                 | (s1, Inr beer) \<Rightarrow> (s1\<lparr>selectedBeer := Some beer\<rparr>, Inr ())))
           (\<lambda>s' e. (s'\<lparr>errorText := Some (message e)\<rparr>, Inr ())))"

subsection \<open>Concrete stores and answers for the examples\<close>

definition buzz :: "string IBeer" where
  "buzz = \<lparr>beer_id = 1, name = ''Buzz'', attrs = ''abv 4.5''\<rparr>"

definition buzz_refetched :: "string IBeer" where
  "buzz_refetched = \<lparr>beer_id = 1, name = ''Buzz'', attrs = ''abv 4.7''\<rparr>"

definition ale :: "string IBeer" where
  "ale = \<lparr>beer_id = 2, name = ''Ale'', attrs = ''abv 5.0''\<rparr>"

definition ale_twin :: "string IBeer" where
  "ale_twin = \<lparr>beer_id = 3, name = ''Ale'', attrs = ''abv 5.2''\<rparr>"

definition ok200 :: "string IBeer list \<Rightarrow> string settled" where
  "ok200 bs = Inr \<lparr>status = 200, x_ratelimit_remaining = Some ''3599'', json = Inr bs\<rparr>"

definition notFound404 :: "string settled" where
  "notFound404 =
     Inr \<lparr>status = 404, x_ratelimit_remaining = Some ''3598'', json = Inr []\<rparr>"

text \<open>
  A server that knows the beers 1 and 2, answers the request for beer 42 with an
  empty list and every other request with status 404; no other task runs.
\<close>

definition punkapi :: "string env" where
  "punkapi =
     \<lparr> net = (\<lambda>uri.
         if uri = ''https://api.punkapi.com/v2/beers'' then ok200 [buzz, ale]
         else if uri = ''https://api.punkapi.com/v2/beers/1'' then ok200 [buzz]
         else if uri = ''https://api.punkapi.com/v2/beers/2'' then ok200 [ale]
         else if uri = ''https://api.punkapi.com/v2/beers/42'' then ok200 []
         else notFound404),
       during = (\<lambda>s. s) \<rparr>"

text \<open>
  No server can be reached, and the request of \<^verbatim>\<open>refreshBeersInfo\<close> fails while
  the call is suspended.
\<close>

definition offline :: "string env" where
  "offline =
     \<lparr> net = (\<lambda>uri. Inl (Error ''Failed to fetch'')),
       during = (\<lambda>s. refreshBeersInfo_resume s (Inl (Error ''Failed to fetch''))) \<rparr>"

definition guest :: AuthState where
  "guest = \<lparr>isAuthenticated = False, accessToken = []\<rparr>"

definition loaded :: "string BeersState" where
  "loaded = fst (loadBeers punkapi initial)"


section \<open>Running the store on concrete inputs\<close>

lemmas run_defs =
  loadBeers_def loadBeer_def selectBeer_def getBeersApi_def getBeersApi_begin_def
  getBeersApi_resume_def try_catch_def dismissError_def beersUri_def map_get_def map_set_def
  map_delete_def unionAndSortBeers_def unionWith_def sortBy_def sameId_def findById_def
  parseInt_def isStrWhiteSpaceChar_def digitValue_def showInt_def Let_def

lemmas example_defs =
  punkapi_def offline_def ok200_def notFound404_def initial_def buzz_def buzz_refetched_def
  ale_def guest_def

lemma loaded_store:
  "loaded =
     \<lparr> beers = [ale, buzz], remainingRequests = Some 3599, selectedBeer = None,
       errorText = None, isRehydrated = False, likedBeerIds = [], commentsMap = [],
       isUploading = False, beersInfo = None,
       uriMap = [(''https://api.punkapi.com/v2/beers'', False)] \<rparr>"
  by (simp add: loaded_def run_defs example_defs)

section \<open>The merge engine\<close>

subsection \<open>What \<^verbatim>\<open>_.unionWith\<close> keeps\<close>

lemma arrayIncludesWith_sameId:
  "arrayIncludesWith xs v sameId \<longleftrightarrow> beer_id v \<in> beer_id ` set xs"
  by (induction xs) (auto simp: sameId_def)

lemma baseUniq_distinct:
  "distinct (map beer_id res) \<Longrightarrow> distinct (map beer_id (baseUniq sameId res vs))"
  by (induction vs arbitrary: res) (auto simp: arrayIncludesWith_sameId)

lemma baseUniq_ids:
  "beer_id ` set (baseUniq sameId res vs) = beer_id ` set res \<union> beer_id ` set vs"
  by (induction vs arbitrary: res) (auto simp: arrayIncludesWith_sameId)

lemma baseUniq_known_ids:
  "beer_id ` set vs \<subseteq> beer_id ` set res \<Longrightarrow> baseUniq sameId res vs = res"
  by (induction vs arbitrary: res) (auto simp: arrayIncludesWith_sameId)

lemma baseUniq_append:
  "baseUniq sameId res (us @ vs) = baseUniq sameId (baseUniq sameId res us) vs"
  by (induction us arbitrary: res) auto

lemma baseUniq_fresh_ids:
  "distinct (map beer_id us) \<Longrightarrow> beer_id ` set res \<inter> beer_id ` set us = {} \<Longrightarrow>
   baseUniq sameId res us = res @ us"
  by (induction us arbitrary: res) (auto simp: arrayIncludesWith_sameId)

lemma findById_Nil: "findById [] i = None"
  by (simp add: findById_def)

lemma findById_Cons:
  "findById (x # xs) i = (if beer_id x = i then Some x else findById xs i)"
  by (simp add: findById_def)


lemma findById_None: "findById xs i = None \<longleftrightarrow> i \<notin> beer_id ` set xs"
  by (induction xs) (auto simp: findById_Nil findById_Cons)



lemma unionWith_distinct: "distinct (map beer_id (unionWith C X sameId))"
  by (simp add: unionWith_def baseUniq_distinct)


subsection \<open>What \<^verbatim>\<open>unionAndSortBeers\<close> returns\<close>

lemma sortBy_distinct: "distinct (map g (sortBy xs f)) = distinct (map g xs)"
  by (simp add: sortBy_def distinct_map)

lemma unionAndSortBeers_distinct: "distinct (map beer_id (unionAndSortBeers s X))"
  by (simp add: unionAndSortBeers_def sortBy_distinct unionWith_distinct)

lemma unionAndSortBeers_ids:
  "beer_id ` set (unionAndSortBeers s X) = beer_id ` set (beers s) \<union> beer_id ` set X"
  by (simp add: unionAndSortBeers_def sortBy_def unionWith_def baseUniq_ids image_Un)

lemma unionAndSortBeers_sorted: "sorted (map name (unionAndSortBeers s X))"
  by (simp add: unionAndSortBeers_def sortBy_def)


lemma unionAndSortBeers_fixpoint:
  assumes "distinct (map beer_id (beers s))" and "sorted (map name (beers s))"
    and "beer_id ` set X \<subseteq> beer_id ` set (beers s)"
  shows "unionAndSortBeers s X = beers s"
proof -
  have "unionWith (beers s) X sameId = baseUniq sameId (baseUniq sameId [] (beers s)) X"
    by (simp add: unionWith_def baseUniq_append)
  also have "baseUniq sameId [] (beers s) = beers s"
    using baseUniq_fresh_ids [of "beers s" "[]"] assms(1) by simp
  also have "baseUniq sameId (beers s) X = beers s"
    using assms(3) by (rule baseUniq_known_ids)
  finally have "unionAndSortBeers s X = sort_key name (beers s)"
    by (simp add: unionAndSortBeers_def sortBy_def)
  also have "\<dots> = beers s"
    using assms(2) by (rule sort_key_id_if_sorted)
  finally show ?thesis .
qed




text \<open>
  Claim C5. The merge is idempotent: merging the same incoming beers into the
  result of the merge changes nothing.
\<close>

theorem unionAndSortBeers_idempotent:
  "unionAndSortBeers (s\<lparr>beers := unionAndSortBeers s newBeers\<rparr>) newBeers
     = unionAndSortBeers s newBeers"
proof -
  let ?s' = "s\<lparr>beers := unionAndSortBeers s newBeers\<rparr>"
  have "unionAndSortBeers ?s' newBeers = beers ?s'"
  proof (rule unionAndSortBeers_fixpoint)
    show "distinct (map beer_id (beers ?s'))"
      by (simp add: unionAndSortBeers_distinct)
    show "sorted (map name (beers ?s'))"
      by (simp add: unionAndSortBeers_sorted)
    show "beer_id ` set newBeers \<subseteq> beer_id ` set (beers ?s')"
      by (simp add: unionAndSortBeers_ids)
  qed
  then show ?thesis by simp
qed

theorem unionAndSortBeers_idempotent_witness:
  "unionAndSortBeers (initial\<lparr>beers := [ale, buzz]\<rparr>) [buzz_refetched, ale] = [ale, buzz]
   \<and> unionAndSortBeers (initial\<lparr>beers := [buzz]\<rparr>) [buzz_refetched, ale] = [ale, buzz]"
  using unionAndSortBeers_idempotent [of "initial\<lparr>beers := [buzz]\<rparr>" "[buzz_refetched, ale]"]
  by (simp add: unionAndSortBeers_def unionWith_def sortBy_def sameId_def buzz_def
      buzz_refetched_def ale_def initial_def)

text \<open>
  Claim C6. Every catalog that the merge produces is ascending by name, keeps
  beers of equal name in the order they had in the union (the catalog's beers
  first, then the incoming ones), and holds no id twice.
\<close>

theorem unionAndSortBeers_sorted_stable_unique:
  "sorted (map name (unionAndSortBeers s newBeers))
   \<and> (\<forall>k. filter (\<lambda>b. name b = k) (unionAndSortBeers s newBeers)
          = filter (\<lambda>b. name b = k) (unionWith (beers s) newBeers sameId))
   \<and> distinct (map beer_id (unionAndSortBeers s newBeers))"
proof (intro conjI allI)
  show "sorted (map name (unionAndSortBeers s newBeers))"
    by (rule unionAndSortBeers_sorted)
  show "distinct (map beer_id (unionAndSortBeers s newBeers))"
    by (rule unionAndSortBeers_distinct)
  show "filter (\<lambda>b. name b = k) (unionAndSortBeers s newBeers)
      = filter (\<lambda>b. name b = k) (unionWith (beers s) newBeers sameId)" for k
    by (simp add: unionAndSortBeers_def sortBy_def sort_key_stable)
qed

theorem unionAndSortBeers_sorted_stable_unique_witness:
  "unionAndSortBeers (initial\<lparr>beers := [buzz, ale_twin]\<rparr>) [ale] = [ale_twin, ale, buzz]
   \<and> sorted (map name [ale_twin, ale, buzz])
   \<and> filter (\<lambda>b. name b = ''Ale'') (unionWith [buzz, ale_twin] [ale] sameId) = [ale_twin, ale]
   \<and> distinct (map beer_id [ale_twin, ale, buzz])"
proof -
  have merged:
    "unionAndSortBeers (initial\<lparr>beers := [buzz, ale_twin]\<rparr>) [ale] = [ale_twin, ale, buzz]"
    by (simp add: unionAndSortBeers_def unionWith_def sortBy_def sameId_def buzz_def ale_def
        ale_twin_def initial_def)
  from unionAndSortBeers_sorted_stable_unique
    [of "initial\<lparr>beers := [buzz, ale_twin]\<rparr>" "[ale]"]
  have "sorted (map name [ale_twin, ale, buzz])"
    and "filter (\<lambda>b. name b = ''Ale'') [ale_twin, ale, buzz]
      = filter (\<lambda>b. name b = ''Ale'') (unionWith [buzz, ale_twin] [ale] sameId)"
    and "distinct (map beer_id [ale_twin, ale, buzz])"
    by (simp_all add: merged)
  with merged show ?thesis
    by (simp add: buzz_def ale_def ale_twin_def)
qed

section \<open>Synchronous actions\<close>



subsection \<open>Liking a beer\<close>

lemma isLikedBeer_iff:
  "isLikedBeer s i \<longleftrightarrow> i \<in> set (likedBeerIds s) \<and> i \<in> beer_id ` set (beers s)"
proof -
  have "findById (likedBeers s) i = None \<longleftrightarrow>
          \<not> (i \<in> set (likedBeerIds s) \<and> i \<in> beer_id ` set (beers s))"
    by (auto simp: findById_None likedBeers_def)
  then show ?thesis
    by (cases "findById (likedBeers s) i") (simp_all add: isLikedBeer_def)
qed

lemma uploadStateToUserProfile_begin_likedBeerIds:
  "likedBeerIds (uploadStateToUserProfile_begin auth s) = likedBeerIds s"
  by (simp add: uploadStateToUserProfile_begin_def)

lemma toggleLikeBeer_loaded:
  "i \<in> beer_id ` set (beers s) \<Longrightarrow>
   likedBeerIds (toggleLikeBeer auth s i) =
     (if i \<in> set (likedBeerIds s) then filter (\<lambda>item. item \<noteq> i) (likedBeerIds s)
      else likedBeerIds s @ [i])"
  by (simp add: toggleLikeBeer_def isLikedBeer_iff remove_def
      uploadStateToUserProfile_begin_likedBeerIds)

lemma toggleLikeBeer_not_loaded:
  "i \<notin> beer_id ` set (beers s) \<Longrightarrow>
   likedBeerIds (toggleLikeBeer auth s i) = likedBeerIds s @ [i]"
  by (simp add: toggleLikeBeer_def isLikedBeer_iff uploadStateToUserProfile_begin_likedBeerIds)

text \<open>
  Claim C4, where the code leaves it. \<^verbatim>\<open>toggleLikeBeer\<close> asks \<^verbatim>\<open>isLikedBeer\<close>, which
  looks the id up among the liked beers of the catalog, so an id whose beer is not
  in the catalog counts as not liked. With an empty catalog, the first toggle of
  id 3 appends it; the second finds 3 among the liked ids and appends it again
  instead of removing it: the id is stored twice and two toggles have not
  restored its membership.
\<close>

theorem toggleLikeBeer_twice_without_beer:
  "likedBeerIds (initial :: string BeersState) = []
   \<and> findById (beers (initial :: string BeersState)) 3 = None
   \<and> likedBeerIds (toggleLikeBeer guest (initial :: string BeersState) 3) = [3]
   \<and> likedBeerIds (toggleLikeBeer guest (toggleLikeBeer guest (initial :: string BeersState) 3) 3)
       = [3, 3]"
  by (simp add: toggleLikeBeer_def isLikedBeer_def likedBeers_def findById_def remove_def
      uploadStateToUserProfile_begin_def guest_def initial_def)

subsection \<open>Commenting a beer\<close>

lemma map_get_map_set:
  "map_get (map_set m k v) k' = (if k' = k then Some v else map_get m k')"
  by (simp add: map_get_def map_set_def update_conv')

lemma map_get_map_delete:
  "map_get (map_delete m k) k' = (if k' = k then None else map_get m k')"
  by (simp add: map_get_def map_delete_def delete_conv')

lemma uploadStateToUserProfile_begin_commentsMap:
  "commentsMap (uploadStateToUserProfile_begin auth s) = commentsMap s"
  by (simp add: uploadStateToUserProfile_begin_def)

text \<open>
  Claim C8, as the code has it. \<^verbatim>\<open>setComment\<close> throws when no beer of the catalog
  has the id, and the store it leaves is the store it was given. When the beer is
  there, a text that is not empty is stored under the id and every other entry is
  kept; \<^verbatim>\<open>null\<close> and the empty text (both fail \<^verbatim>\<open>if (comment)\<close>) delete the entry
  and keep every other one.
\<close>

theorem setComment_precondition_and_effect:
  "(findById (beers s) i = None \<longrightarrow>
      setComment auth s i comment =
        (s, Inl (Error ''You are not allowed to setComment on beers not within our cache!'')))
   \<and> (findById (beers s) i \<noteq> None \<and> comment = Some text \<and> text \<noteq> [] \<longrightarrow>
        snd (setComment auth s i comment) = Inr ()
        \<and> (\<forall>k. map_get (commentsMap (fst (setComment auth s i comment))) k
                = (if k = showInt i then Some text else map_get (commentsMap s) k)))
   \<and> (findById (beers s) i \<noteq> None \<and> (comment = None \<or> comment = Some []) \<longrightarrow>
        snd (setComment auth s i comment) = Inr ()
        \<and> (\<forall>k. map_get (commentsMap (fst (setComment auth s i comment))) k
                = (if k = showInt i then None else map_get (commentsMap s) k)))"
proof (intro conjI impI allI)
  assume "findById (beers s) i = None"
  then show "setComment auth s i comment =
      (s, Inl (Error ''You are not allowed to setComment on beers not within our cache!''))"
    by (simp add: setComment_def)
next
  assume "findById (beers s) i \<noteq> None \<and> comment = Some text \<and> text \<noteq> []"
  then have *: "setComment auth s i comment =
      (uploadStateToUserProfile_begin auth
         (s\<lparr>commentsMap := map_set (commentsMap s) (showInt i) text\<rparr>), Inr ())"
    by (auto simp: setComment_def)
  show "snd (setComment auth s i comment) = Inr ()"
    by (simp add: *)
  show "map_get (commentsMap (fst (setComment auth s i comment))) k
      = (if k = showInt i then Some text else map_get (commentsMap s) k)" for k
    by (simp add: * uploadStateToUserProfile_begin_commentsMap map_get_map_set)
next
  assume "findById (beers s) i \<noteq> None \<and> (comment = None \<or> comment = Some [])"
  then have *: "setComment auth s i comment =
      (uploadStateToUserProfile_begin auth
         (s\<lparr>commentsMap := map_delete (commentsMap s) (showInt i)\<rparr>), Inr ())"
    by (auto simp: setComment_def)
  show "snd (setComment auth s i comment) = Inr ()"
    by (simp add: *)
  show "map_get (commentsMap (fst (setComment auth s i comment))) k
      = (if k = showInt i then None else map_get (commentsMap s) k)" for k
    by (simp add: * uploadStateToUserProfile_begin_commentsMap map_get_map_delete)
qed

theorem setComment_precondition_and_effect_witness:
  "setComment guest (initial\<lparr>commentsMap := [(''1'', ''hoppy'')]\<rparr> :: string BeersState) 1 (Some ''bitter'')
     = (initial\<lparr>commentsMap := [(''1'', ''hoppy'')]\<rparr>,
        Inl (Error ''You are not allowed to setComment on beers not within our cache!''))
   \<and> map_get (commentsMap (fst (setComment guest (loaded\<lparr>commentsMap := [(''1'', ''hoppy'')]\<rparr>) 1
        (Some ''bitter'')))) ''1'' = Some ''bitter''
   \<and> map_get (commentsMap (fst (setComment guest (loaded\<lparr>commentsMap := [(''1'', ''hoppy'')]\<rparr>) 1
        None))) ''1'' = None"
  using
    setComment_precondition_and_effect
      [of "initial\<lparr>commentsMap := [(''1'', ''hoppy'')]\<rparr> :: string BeersState" 1 guest
          "Some ''bitter''" "''bitter''"]
    setComment_precondition_and_effect
      [of "loaded\<lparr>commentsMap := [(''1'', ''hoppy'')]\<rparr>" 1 guest "Some ''bitter''" "''bitter''"]
    setComment_precondition_and_effect
      [of "loaded\<lparr>commentsMap := [(''1'', ''hoppy'')]\<rparr>" 1 guest None "''bitter''"]
  by (simp add: loaded_store findById_def showInt_def initial_def buzz_def ale_def)

text \<open>
  Claim C8 as the spec states it (a text that is not null sets the entry) fails
  at the empty text: on a catalog that holds beer 1, with a comment stored for it,
  \<^verbatim>\<open>setComment(1, "")\<close> deletes the comment instead of storing the empty text.
\<close>

theorem setComment_empty_text_counterexample:
  "findById (beers (loaded\<lparr>commentsMap := [(''1'', ''hoppy'')]\<rparr>)) 1 = Some buzz
   \<and> map_get (commentsMap (fst (setComment guest (loaded\<lparr>commentsMap := [(''1'', ''hoppy'')]\<rparr>) 1
        (Some [])))) ''1'' = None
   \<and> commentsMap (fst (setComment guest (loaded\<lparr>commentsMap := [(''1'', ''hoppy'')]\<rparr>) 1 (Some [])))
       = []"
  by (simp add: loaded_store setComment_def uploadStateToUserProfile_begin_def map_get_def
      map_delete_def findById_def showInt_def guest_def buzz_def ale_def)

section \<open>The fetch path\<close>

lemma getBeersApi_begin_done:
  "map_get (uriMap s) (beersUri idOpt) = Some False \<Longrightarrow>
   getBeersApi_begin s idOpt = (dismissError s, Return (beers s))"
  by (simp add: getBeersApi_begin_def dismissError_def Let_def)

lemma getBeersApi_begin_not_done:
  "map_get (uriMap s) (beersUri idOpt) \<noteq> Some False \<Longrightarrow>
   getBeersApi_begin s idOpt =
     ((dismissError s)\<lparr>uriMap := map_set (uriMap s) (beersUri idOpt) True\<rparr>,
      Await (beersUri idOpt))"
  by (simp add: getBeersApi_begin_def dismissError_def Let_def)




text \<open>
  Claim C3, as the code has it. A call whose URI is done (\<open>False\<close> in the map)
  clears the error and returns the catalog as it is: it sends no request, whatever
  the network would answer, and the URI stays done. A call whose URI is absent or
  in flight marks it in flight and sends the request. The state that makes a call
  reuse the catalog is done, not in flight.
\<close>

theorem getBeersApi_done_reuses_catalog:
  "(map_get (uriMap s) (beersUri idOpt) = Some False \<longrightarrow>
      getBeersApi_begin s idOpt = (dismissError s, Return (beers s))
      \<and> (\<forall>env. getBeersApi env s idOpt = (dismissError s, Inr (beers s)))
      \<and> map_get (uriMap (fst (getBeersApi_begin s idOpt))) (beersUri idOpt) = Some False)
   \<and> (map_get (uriMap s) (beersUri idOpt) \<noteq> Some False \<longrightarrow>
        snd (getBeersApi_begin s idOpt) = Await (beersUri idOpt)
        \<and> map_get (uriMap (fst (getBeersApi_begin s idOpt))) (beersUri idOpt) = Some True)"
proof (intro conjI impI allI)
  assume *: "map_get (uriMap s) (beersUri idOpt) = Some False"
  show "getBeersApi_begin s idOpt = (dismissError s, Return (beers s))"
    using * by (rule getBeersApi_begin_done)
  show "getBeersApi env s idOpt = (dismissError s, Inr (beers s))" for env
    by (simp add: getBeersApi_def getBeersApi_begin_done [OF *])
  show "map_get (uriMap (fst (getBeersApi_begin s idOpt))) (beersUri idOpt) = Some False"
    using * by (simp add: getBeersApi_begin_done dismissError_def)
next
  assume *: "map_get (uriMap s) (beersUri idOpt) \<noteq> Some False"
  show "snd (getBeersApi_begin s idOpt) = Await (beersUri idOpt)"
    by (simp add: getBeersApi_begin_not_done [OF *])
  show "map_get (uriMap (fst (getBeersApi_begin s idOpt))) (beersUri idOpt) = Some True"
    by (simp add: getBeersApi_begin_not_done [OF *] map_get_map_set)
qed

theorem getBeersApi_done_reuses_catalog_witness:
  "map_get (uriMap loaded) (beersUri None) = Some False
   \<and> getBeersApi offline loaded None = (loaded, Inr [ale, buzz])
   \<and> map_get (uriMap loaded) (beersUri (Some 2)) \<noteq> Some False
   \<and> snd (getBeersApi_begin loaded (Some 2)) = Await ''https://api.punkapi.com/v2/beers/2''"
  using
    getBeersApi_done_reuses_catalog [of loaded None]
    getBeersApi_done_reuses_catalog [of loaded "Some 2"]
  by (simp add: loaded_store beersUri_def map_get_def showInt_def dismissError_def)

text \<open>
  Claim C3 as the spec states it (a key that is done is fetched again) fails on
  the store that has loaded the whole collection: the URI of the collection is
  done, and the next call for it returns the catalog with no request sent and
  leaves the URI done.
\<close>

theorem getBeersApi_done_refetch_counterexample:
  "map_get (uriMap loaded) ''https://api.punkapi.com/v2/beers'' = Some False
   \<and> getBeersApi_begin loaded None = (loaded, Return [ale, buzz])
   \<and> snd (getBeersApi_begin loaded None) \<noteq> Await ''https://api.punkapi.com/v2/beers''
   \<and> map_get (uriMap (fst (getBeersApi_begin loaded None))) ''https://api.punkapi.com/v2/beers''
       = Some False"
  by (simp add: loaded_store getBeersApi_begin_def dismissError_def beersUri_def map_get_def
      Let_def)

subsection \<open>The call run to completion\<close>

lemma getBeersApi_resume_resolves:
  "\<exists>s' bs. getBeersApi_resume s uri settled = (s', Inr bs)"
proof (cases settled)
  case (Inl e)
  then show ?thesis
    by (simp add: getBeersApi_resume_def try_catch_def)
next
  case (Inr res)
  then show ?thesis
    by (cases "json res") (simp_all add: getBeersApi_resume_def try_catch_def)
qed




lemma getBeersApi_resolves: "\<exists>s' bs. getBeersApi env s idOpt = (s', Inr bs)"
proof (cases "map_get (uriMap s) (beersUri idOpt) = Some False")
  case True
  then show ?thesis
    by (simp add: getBeersApi_def getBeersApi_begin_done)
next
  case False
  then show ?thesis
    by (simp add: getBeersApi_def getBeersApi_begin_not_done getBeersApi_resume_resolves)
qed




subsection \<open>Loading one beer\<close>

lemma loadBeer_cached:
  "findById (beers s) i = Some beer \<Longrightarrow> loadBeer env s i = (s, Inr beer)"
  by (simp add: loadBeer_def)

lemma loadBeer_fetched:
  "findById (beers s) i = None \<Longrightarrow> getBeersApi env s (Some i) = (s1, Inr bs) \<Longrightarrow>
   loadBeer env s i =
     (case bs of
        [] \<Rightarrow> (s1, Inl (Error ''Beer not found or currently unavailable!''))
      | beer # rest \<Rightarrow> (s1\<lparr>beers := unionAndSortBeers s1 [beer]\<rparr>, Inr beer))"
  by (simp add: loadBeer_def split: list.splits)

lemma loadBeer_error:
  assumes "loadBeer env s i = (s1, Inl e)"
  shows "e = Error ''Beer not found or currently unavailable!''"
proof (cases "findById (beers s) i")
  case None
  obtain s2 bs where g: "getBeersApi env s (Some i) = (s2, Inr bs)"
    using getBeersApi_resolves by blast
  from assms show ?thesis
    by (simp add: loadBeer_fetched [OF None g] split: list.splits)
next
  case (Some beer)
  with assms show ?thesis
    by (simp add: loadBeer_cached)
qed





subsection \<open>Selecting a beer\<close>







end
